theory Spec2Isabelle
  imports Main
begin

section \<open>Python strings\<close>

text \<open>
  A Python \<open>str\<close> is a sequence of Unicode code points, so it is modelled as a list of
  natural numbers (one per code point) and not as a list of bytes. \<open>u\<close> turns an ASCII
  literal of the source into that representation; a newline is the code point 10 and a
  tab the code point 9.
\<close>

type_synonym pystr = "nat list"

definition u :: "string \<Rightarrow> pystr" where
  "u s = map of_char s"

text \<open>
  \<open>str.isspace\<close> for a single code point, which is also the separator test of
  \<open>str.split()\<close> without arguments: the code points below are exactly those for which
  CPython's \<open>Py_UNICODE_ISSPACE\<close> holds.
\<close>

definition isspace :: "nat \<Rightarrow> bool" where
  "isspace c \<longleftrightarrow>
     (0x09 \<le> c \<and> c \<le> 0x0D) \<or> (0x1C \<le> c \<and> c \<le> 0x20) \<or> c = 0x85 \<or> c = 0xA0 \<or>
     c = 0x1680 \<or> (0x2000 \<le> c \<and> c \<le> 0x200A) \<or> c = 0x2028 \<or> c = 0x2029 \<or>
     c = 0x202F \<or> c = 0x205F \<or> c = 0x3000"

text \<open>
  \<open>value.split()\<close>: the scan of CPython's \<open>split_whitespace\<close>. \<open>cur\<close> is the token
  being read; a whitespace code point closes it, and an empty \<open>cur\<close> is never emitted,
  so runs of whitespace and leading or trailing whitespace produce no token.
\<close>

fun split_from :: "pystr \<Rightarrow> pystr \<Rightarrow> pystr list" where
  "split_from cur [] = (if cur = [] then [] else [cur])"
| "split_from cur (c # cs) =
     (if isspace c
      then (if cur = [] then split_from [] cs else cur # split_from [] cs)
      else split_from (cur @ [c]) cs)"

definition str_split :: "pystr \<Rightarrow> pystr list" where
  "str_split v = split_from [] v"

section \<open>The keyword transformer of \<open>/searches add\<close>\<close>

text \<open>
  \<open>Keyword(content=keyword)\<close>: the only attribute the command layer sets on a keyword.
\<close>

record Keyword =
  content :: pystr

text \<open>
  \<open>Searches.KeywordListTransformer.transform\<close>:
  \<open>[Keyword(content=keyword) for keyword in value.split()]\<close>. The interaction argument
  is not used by the body and is left out.
\<close>

definition transform :: "pystr \<Rightarrow> Keyword list" where
  "transform v = map (\<lambda>keyword. \<lparr>content = keyword\<rparr>) (str_split v)"

text \<open>
  The text that a list of tokens makes when each token is followed by its separator:
  the general shape of an input of \<open>str.split()\<close>, against which the scan is checked.
\<close>

fun spaced :: "(pystr \<times> pystr) list \<Rightarrow> pystr" where
  "spaced [] = []"
| "spaced ((t, s) # r) = t @ s @ spaced r"

section \<open>Rendering of integers and joining of strings\<close>

text \<open>
  \<open>str(n)\<close> for a Python \<open>int\<close>, as an f-string renders it: decimal digits, most
  significant first, with a minus sign for a negative number.
\<close>

fun digits :: "nat \<Rightarrow> pystr" where
  "digits n = (if n < 10 then [48 + n] else digits (n div 10) @ [48 + n mod 10])"

declare digits.simps [simp del]

definition str_int :: "int \<Rightarrow> pystr" where
  "str_int i = (if i < 0 then 45 # digits (nat (- i)) else digits (nat i))"

text \<open>\<open>sep.join(xs)\<close>.\<close>

fun join :: "pystr \<Rightarrow> pystr list \<Rightarrow> pystr" where
  "join sep [] = []"
| "join sep [x] = x"
| "join sep (x # y # r) = x @ sep @ join sep (y # r)"

section \<open>The data model seen by the command layer\<close>

text \<open>
  Modelled from the spec: the module \<open>models\<close> (\<open>SubmissionType\<close>,
  \<open>SubmissionCriterion\<close>, \<open>Keyword\<close>) is imported by \<open>bot.py\<close> and is not among the
  sources. The listing type is the enumeration of the two kinds the spec names (want to
  buy, want to sell); a criterion carries the four attributes that \<open>Searches.add\<close>
  passes to its constructor and the server-generated primary key, which is \<open>None\<close>
  until the object has been written to the database. The attribute \<open>keywords\<close> is
  named \<open>keyword_list\<close> here, \<open>keywords\<close> being a reserved word of the theory language.
\<close>

datatype SubmissionType = WantToBuy | WantToSell

record SubmissionCriterion =
  criterion_id :: "int option"
  submission_type :: SubmissionType
  keyword_list :: "Keyword list"
  all_required :: bool
  min_transactions :: int

text \<open>
  Modelled from the spec: the relational store as the object-relational mapper presents
  it, every stored criterion with its keyword collection loaded, in primary-key order,
  and the next key the server will generate. A keyword belongs to exactly one criterion
  and is removed together with its owner.
\<close>

record database =
  rows :: "SubmissionCriterion list"
  next_id :: int

text \<open>
  A session (\<open>DB_SESSION()\<close>) is a unit of work over the store: \<open>session.add\<close> and
  \<open>session.delete\<close> only register an operation, \<open>session.commit\<close> writes the
  registered operations to the store, and leaving the \<open>async with\<close> block closes the
  session, which drops whatever has not been committed.
\<close>

datatype pending_op = Insert SubmissionCriterion | Delete SubmissionCriterion

record session =
  store :: database
  pending :: "pending_op list"

definition open_session :: "database \<Rightarrow> session" where
  "open_session db = \<lparr>store = db, pending = []\<rparr>"

definition close_session :: "session \<Rightarrow> database" where
  "close_session s = store s"

definition session_add :: "session \<Rightarrow> SubmissionCriterion \<Rightarrow> session" where
  "session_add s c = s\<lparr>pending := pending s @ [Insert c]\<rparr>"

definition session_delete :: "session \<Rightarrow> SubmissionCriterion \<Rightarrow> session" where
  "session_delete s c = s\<lparr>pending := pending s @ [Delete c]\<rparr>"

text \<open>
  The object as the INSERT leaves it: the generated primary key is written back into it
  (the session factory is built with \<open>expire_on_commit=False\<close>, so the attributes stay
  loaded after the commit).
\<close>

definition flushed :: "database \<Rightarrow> SubmissionCriterion \<Rightarrow> SubmissionCriterion" where
  "flushed db c = c\<lparr>criterion_id := Some (next_id db)\<rparr>"

fun apply_pending :: "database \<Rightarrow> pending_op \<Rightarrow> database" where
  "apply_pending db (Insert c) =
     \<lparr>rows = rows db @ [flushed db c], next_id = next_id db + 1\<rparr>"
| "apply_pending db (Delete c) =
     db\<lparr>rows := filter (\<lambda>r. criterion_id r \<noteq> criterion_id c) (rows db)\<rparr>"

definition session_commit :: "session \<Rightarrow> session" where
  "session_commit s = \<lparr>store = foldl apply_pending (store s) (pending s), pending = []\<rparr>"

text \<open>
  \<open>session.scalars(select(SubmissionCriterion).options(selectinload(...)))\<close> and
  \<open>session.scalar(select(SubmissionCriterion).where(SubmissionCriterion.id == search_id))\<close>:
  all stored criteria, and the first stored criterion with the given key or \<open>None\<close>.
\<close>

definition select_all :: "session \<Rightarrow> SubmissionCriterion list" where
  "select_all s = rows (store s)"

definition select_by_id :: "session \<Rightarrow> int \<Rightarrow> SubmissionCriterion option" where
  "select_by_id s search_id = find (\<lambda>r. criterion_id r = Some search_id) (rows (store s))"

section \<open>Effects of the command layer\<close>

text \<open>
  What a command handler does besides returning is recorded, in order, as a trace of
  effects: the calls on the logger, on the chat platform, on the database session and on
  the command tree. A log call keeps the level and the text of the message as the source
  writes it; the values an f-string interpolates into a log message are not rendered,
  the placeholder stays in the text.
\<close>

datatype log_level = DEBUG | INFO | WARNING | ERROR | CRITICAL

type_synonym guild = nat

datatype effect =
    Log log_level pystr
  | SendMessage pystr
  | EditOriginalResponse pystr
  | CtxSend pystr
  | SessionAdd SubmissionCriterion
  | SessionDelete SubmissionCriterion
  | SessionCommit
  | SessionScalars
  | SessionScalar int
  | TreeCopyGlobalTo guild
  | TreeSync "guild option"

section \<open>The slash commands of the group \<open>searches\<close>\<close>

text \<open>
  \<open>Searches.add\<close>. \<open>repr_criterion\<close> is \<open>SubmissionCriterion.__repr__\<close>, which the module
  \<open>models\<close> defines and which is therefore a parameter. The handler receives the
  arguments as the framework passes them, the keywords already transformed. \<open>created\<close>
  is the object \<open>criterion\<close> once the commit has written it.
\<close>

definition Searches_add ::
  "(SubmissionCriterion \<Rightarrow> pystr) \<Rightarrow> database \<Rightarrow> SubmissionType \<Rightarrow> Keyword list \<Rightarrow> bool \<Rightarrow> int
     \<Rightarrow> database \<times> effect list" where
  "Searches_add repr_criterion db submission_type' keywords' all_required' min_transactions' =
     (let session0 = open_session db;
          criterion = \<lparr>criterion_id = None, submission_type = submission_type',
                       keyword_list = keywords', all_required = all_required',
                       min_transactions = min_transactions'\<rparr>;
          session1 = session_add session0 criterion;
          session2 = session_commit session1;
          created = flushed (store session1) criterion
      in (close_session session2,
          [Log DEBUG (u ''Received slash command: /searches add {submission_type} {keywords} {all_required} {min_transactions}''),
           SendMessage (u ''Creating...''),
           SessionAdd criterion,
           SessionCommit,
           EditOriginalResponse (u ''Created!'' @ [10] @ repr_criterion created)]))"

text \<open>
  The invocation of \<open>/searches add\<close> as the signature of the handler declares it:
  \<open>keywords\<close> goes through the transformer, \<open>all_required\<close> defaults to \<open>True\<close> and
  \<open>min_transactions\<close> to 5. The annotation \<open>Range[int, 1]\<close> of \<open>min_transactions\<close> only
  declares a lower bound: nothing in the source compares the value with it, so the
  handler receives the value the invocation carries, whatever it is.
\<close>

definition invoke_add ::
  "(SubmissionCriterion \<Rightarrow> pystr) \<Rightarrow> database \<Rightarrow> SubmissionType \<Rightarrow> pystr \<Rightarrow> bool option
     \<Rightarrow> int option \<Rightarrow> database \<times> effect list" where
  "invoke_add repr_criterion db submission_type' value all_required' min_transactions' =
     Searches_add repr_criterion db submission_type' (transform value)
       (case all_required' of None \<Rightarrow> True | Some b \<Rightarrow> b)
       (case min_transactions' of None \<Rightarrow> 5 | Some n \<Rightarrow> n)"

text \<open>
  \<open>Searches.list\<close>. \<open>str_criterion\<close> is \<open>str(c)\<close> for a criterion, again defined by the
  module \<open>models\<close>.
\<close>

definition Searches_list ::
  "(SubmissionCriterion \<Rightarrow> pystr) \<Rightarrow> database \<Rightarrow> database \<times> effect list" where
  "Searches_list str_criterion db =
     (let session0 = open_session db;
          criteria = select_all session0
      in (close_session session0,
          [Log DEBUG (u ''Received slash command: /searches list''),
           SendMessage (u ''Please wait...''),
           SessionScalars,
           EditOriginalResponse
             (u ''Search criteria:'' @ [10] @ join [9, 10] (map str_criterion criteria))]))"

text \<open>
  \<open>Searches.delete\<close>. The early \<open>return\<close> of the not-found branch leaves the session
  block without a commit; the success reply is sent after the block.
\<close>

definition Searches_delete :: "database \<Rightarrow> int \<Rightarrow> database \<times> effect list" where
  "Searches_delete db search_id =
     (let session0 = open_session db;
          received = [Log DEBUG (u ''Received slash command: /searches delete {search_id}''),
                      SendMessage (u ''Please wait...''),
                      SessionScalar search_id]
      in case select_by_id session0 search_id of
           None \<Rightarrow>
             (close_session session0,
              received @
              [EditOriginalResponse
                 (u ''Search criteria not found for id '' @ str_int search_id @ u ''!'')])
         | Some criterion \<Rightarrow>
             (let session1 = session_delete session0 criterion;
                  session2 = session_commit session1
              in (close_session session2,
                  received @
                  [SessionDelete criterion, SessionCommit,
                   EditOriginalResponse (u ''Successfully deleted!'')])))"

text \<open>
  The invocation of \<open>/searches delete\<close>: the handler receives \<open>search_id\<close> as the
  invocation carries it; \<open>Range[int, 0]\<close> is, again, an annotation that the source does
  not check.
\<close>

definition invoke_delete :: "database \<Rightarrow> int \<Rightarrow> database \<times> effect list" where
  "invoke_delete db search_id = Searches_delete db search_id"

section \<open>The text command \<open>%sync\<close>\<close>

text \<open>
  The invocation context: the server the message was sent in (\<open>None\<close> in a direct
  message) and whether the author passes the check \<open>commands.is_owner()\<close>.
\<close>

record Context =
  ctx_guild :: "guild option"
  author_is_owner :: bool

datatype target = Global | Here

text \<open>
  \<open>sync\<close>. \<open>tree_sync\<close> is the answer of the chat platform to \<open>ctx.bot.tree.sync\<close>: the
  list of commands it synced, globally or for a server. The annotation
  \<open>Literal["global", "here"]\<close> leaves no third value of \<open>target\<close>.
\<close>

definition sync :: "(guild option \<Rightarrow> pystr list) \<Rightarrow> Context \<Rightarrow> target \<Rightarrow> effect list" where
  "sync tree_sync ctx target' =
     (let received = [Log DEBUG (u ''Received command: %sync {target}'')];
          synced = [Log DEBUG ([9] @ u ''Synced the following commands:'' @ [10, 9] @
                               u ''{synced_commands!s}'')]
      in case target' of
           Global \<Rightarrow>
             (let synced_commands = tree_sync None
              in received @
                 [TreeSync None,
                  CtxSend (u ''Synced '' @ str_int (int (length synced_commands)) @
                           u '' command(s) globally.'')] @ synced)
         | Here \<Rightarrow>
             (case ctx_guild ctx of
                None \<Rightarrow> received @ [CtxSend (u ''Not in a guild context!'')]
              | Some g \<Rightarrow>
                  (let synced_commands = tree_sync (Some g)
                   in received @
                      [TreeCopyGlobalTo g, TreeSync (Some g),
                       CtxSend (u ''Synced '' @ str_int (int (length synced_commands)) @
                                u '' command(s) to the current guild.'')] @ synced)))"

text \<open>
  The errors a failing invocation hands to the error handler of the command:
  \<open>MissingRequiredArgument\<close> and \<open>BadLiteralArgument\<close> carry the name of the parameter
  (\<open>error.param.name\<close>); every other \<open>CommandError\<close> is kept by its class name.
\<close>

datatype CommandError =
    MissingRequiredArgument pystr
  | BadLiteralArgument pystr
  | OtherCommandError pystr

definition usage_string :: pystr where
  "usage_string = u ''Usage: `%sync <here|global>`''"

text \<open>\<open>sync_error\<close>: the trace, and the error it raises again, if any.\<close>

definition sync_error :: "Context \<Rightarrow> CommandError \<Rightarrow> effect list \<times> CommandError option" where
  "sync_error ctx error =
     (case error of
        MissingRequiredArgument param_name \<Rightarrow>
          ([CtxSend (u ''A value for `'' @ param_name @ u ''` is missing!'' @ [10, 9] @
                     usage_string)], None)
      | BadLiteralArgument param_name \<Rightarrow>
          ([CtxSend (u ''`'' @ param_name @ u ''` must be either `here` or `global`!'' @
                     [10, 9] @ usage_string)], None)
      | OtherCommandError cls \<Rightarrow>
          ([Log ERROR (u ''Unhandled exception for 'sync' command!'')], Some error))"

text \<open>
  How the framework (\<open>discord.ext.commands\<close>) invokes the command on the words that
  follow \<open>%sync\<close>: the owner check, then the conversion of the first word to the literal
  type of \<open>target\<close>, then the body; a failure before the body goes to \<open>sync_error\<close>.
\<close>

definition convert_target :: "pystr list \<Rightarrow> CommandError + target" where
  "convert_target args =
     (case args of
        [] \<Rightarrow> Inl (MissingRequiredArgument (u ''target''))
      | a # _ \<Rightarrow>
          if a = u ''global'' then Inr Global
          else if a = u ''here'' then Inr Here
          else Inl (BadLiteralArgument (u ''target'')))"

definition invoke_sync ::
  "(guild option \<Rightarrow> pystr list) \<Rightarrow> Context \<Rightarrow> pystr list \<Rightarrow> effect list \<times> CommandError option" where
  "invoke_sync tree_sync ctx args =
     (if \<not> author_is_owner ctx then sync_error ctx (OtherCommandError (u ''NotOwner''))
      else case convert_target args of
             Inl e \<Rightarrow> sync_error ctx e
           | Inr t \<Rightarrow> (sync tree_sync ctx t, None))"

section \<open>The module \<open>common\<close>: log level, logger factory, engine accessor\<close>

text \<open>
  The exceptions of this module: the \<open>ValueError\<close> that \<open>get_logger\<close> raises itself, with
  its message, and the two that \<open>logging.Logger.setLevel\<close> raises from its level check,
  \<open>ValueError("Unknown level: ...")\<close> for a string that names no level and
  \<open>TypeError("Level not an integer or a valid string: ...")\<close> for a value that is
  neither an integer nor a string, such as \<open>None\<close>.
\<close>

datatype py_error = ValueError pystr | UnknownLevel pystr | LevelTypeError

record Logger =
  logger_name :: pystr
  logger_level :: nat

record Engine =
  engine_url :: pystr
  engine_no :: nat

text \<open>
  The state of a process as far as this module reads and writes it: the two module
  globals \<open>ENGINE\<close> and \<open>LOG_LEVEL\<close> (both \<open>None\<close> when the module is loaded), the level
  of every logger that has been given one, the number of calls of
  \<open>logging.basicConfig\<close>, the number of engines constructed so far (which numbers the
  engine objects, so that two engines are the same object exactly when they are equal)
  and the records handed to the loggers: logger name, level and message.
\<close>

record process =
  ENGINE :: "Engine option"
  LOG_LEVEL :: "pystr option"
  levels :: "pystr \<rightharpoonup> nat"
  basic_config_calls :: nat
  engines_created :: nat
  records :: "(pystr \<times> log_level \<times> pystr) list"

definition fresh_process :: process where
  "fresh_process =
     \<lparr>ENGINE = None, LOG_LEVEL = None, levels = Map.empty, basic_config_calls = 0,
      engines_created = 0, records = []\<rparr>"

definition set_log_level :: "pystr \<Rightarrow> process \<Rightarrow> process" where
  "set_log_level level p = p\<lparr>LOG_LEVEL := Some level\<rparr>"

text \<open>\<open>logging._nameToLevel\<close> and \<open>logging._checkLevel\<close>, applied to a string or \<open>None\<close>.\<close>

definition nameToLevel :: "(pystr \<times> nat) list" where
  "nameToLevel =
     [(u ''CRITICAL'', 50), (u ''FATAL'', 50), (u ''ERROR'', 40), (u ''WARN'', 30),
      (u ''WARNING'', 30), (u ''INFO'', 20), (u ''DEBUG'', 10), (u ''NOTSET'', 0)]"

definition checkLevel :: "pystr option \<Rightarrow> py_error + nat" where
  "checkLevel level =
     (case level of
        None \<Rightarrow> Inl LevelTypeError
      | Some l \<Rightarrow>
          (case map_of nameToLevel l of
             None \<Rightarrow> Inl (UnknownLevel l)
           | Some rv \<Rightarrow> Inr rv))"

text \<open>
  \<open>get_logger\<close>. \<open>logging.getLogger\<close> answers the root logger, whose name is \<open>root\<close>, for
  an empty name; \<open>setLevel\<close> checks the level before it stores it.
\<close>

definition get_logger :: "pystr option \<Rightarrow> process \<Rightarrow> process \<times> (py_error + Logger)" where
  "get_logger package_name p =
     (case package_name of
        None \<Rightarrow> (p, Inl (ValueError (u ''package_name must be specified!'')))
      | Some n \<Rightarrow>
          (let p1 = p\<lparr>basic_config_calls := basic_config_calls p + 1\<rparr>;
               name = (if n = [] then u ''root'' else n)
           in case checkLevel (LOG_LEVEL p1) of
                Inl e \<Rightarrow> (p1, Inl e)
              | Inr lv \<Rightarrow>
                  (p1\<lparr>levels := (levels p1)(name \<mapsto> lv)\<rparr>,
                   Inr \<lparr>logger_name = name, logger_level = lv\<rparr>)))"

text \<open>\<open>logger.info(msg)\<close>: the record is handed to the logger.\<close>

definition logger_info :: "Logger \<Rightarrow> pystr \<Rightarrow> process \<Rightarrow> process" where
  "logger_info logger msg p = p\<lparr>records := records p @ [(logger_name logger, INFO, msg)]\<rparr>"

text \<open>
  \<open>get_engine\<close>. The global is assigned before the logger is asked for, so an exception
  of \<open>get_logger\<close> leaves the engine in place.
\<close>

definition get_engine :: "process \<Rightarrow> process \<times> (py_error + Engine)" where
  "get_engine p =
     (case ENGINE p of
        None \<Rightarrow>
          (let engine = \<lparr>engine_url = u ''sqlite:///test.db'', engine_no = engines_created p\<rparr>;
               p1 = p\<lparr>ENGINE := Some engine, engines_created := engines_created p + 1\<rparr>
           in case get_logger (Some (u ''wemb.common'')) p1 of
                (p2, Inl e) \<Rightarrow> (p2, Inl e)
              | (p2, Inr logger) \<Rightarrow> (logger_info logger (u ''created engine'') p2, Inr engine))
      | Some engine \<Rightarrow> (p, Inr engine))"

section \<open>Start-up wiring and the shutdown sequence\<close>

text \<open>
  The part of \<open>run_bot\<close> that runs before the event loop is started: the signal handlers
  for \<open>SIGTERM\<close> and \<open>SIGINT\<close> are registered on the loop or, where the platform raises
  \<open>NotImplementedError\<close>, with \<open>signal.signal\<close> if the operator allowed it (the process
  exits with status 1 otherwise); then the engine and the session factory are created
  from the connection string. Both kinds of handler schedule the coroutine
  \<open>__shutdown\<close> on the loop, so it can only run once \<open>loop.run_forever()\<close> has been
  reached, after these assignments.
\<close>

record Namespace =
  allow_dirty_shutdown :: bool
  db_connection_string :: pystr
  discord_api_token :: pystr

record AsyncEngine =
  async_url :: pystr

datatype signal_handlers = LoopSignalHandlers | DirtySignalHandlers

record bot_globals =
  DB_ENGINE :: "AsyncEngine option"
  DB_SESSION :: "AsyncEngine option"
  handlers :: "signal_handlers option"

definition module_globals :: bot_globals where
  "module_globals = \<lparr>DB_ENGINE = None, DB_SESSION = None, handlers = None\<rparr>"

datatype exit = SystemExit int

definition run_bot_setup ::
  "bool \<Rightarrow> Namespace \<Rightarrow> bot_globals \<Rightarrow> effect list \<times> (exit + bot_globals)" where
  "run_bot_setup signals_supported args g =
     (let engine = \<lparr>async_url = db_connection_string args\<rparr>;
          warning = Log WARNING (u ''asyncio signals are NOT properly supported on this platform! Python's provided signal handler will be used instead, but this may cause objects to not be closed properly!'')
      in if signals_supported
         then ([], Inr (g\<lparr>handlers := Some LoopSignalHandlers, DB_ENGINE := Some engine,
                          DB_SESSION := Some engine\<rparr>))
         else if \<not> allow_dirty_shutdown args
         then ([warning,
                Log ERROR (u ''Please pass --allow-dirty-shutdown or set the WEMB_ALLOW_DIRTY_SHUTDOWN env var to accept these conditions.'')],
               Inl (SystemExit 1))
         else ([warning],
               Inr (g\<lparr>handlers := Some DirtySignalHandlers, DB_ENGINE := Some engine,
                        DB_SESSION := Some engine\<rparr>)))"

text \<open>
  The scheduler as \<open>__shutdown\<close> sees it: the unfinished tasks of the loop at the moment
  \<open>asyncio.all_tasks()\<close> is called, and the task that is running the coroutine. How a
  task ends once it has been cancelled is up to the task: it ends cancelled, it returns,
  it raises, or it never ends (\<open>None\<close>).
\<close>

type_synonym task = nat

datatype settled = Returned | CancelledError | Raised pystr

record event_loop =
  all_tasks :: "task list"
  current_task :: task

datatype Signals = SIGTERM | SIGINT

datatype loop_effect =
    LoopLog log_level pystr
  | Dispose AsyncEngine
  | Cancel task
  | Gather "task list"
  | LoopStop

text \<open>
  \<open>await asyncio.gather(*tasks, return_exceptions=True)\<close>: waits until every task has
  ended and answers their results, an exception being a result like any other; it does
  not return while a task has not ended.
\<close>

definition gather_return_exceptions ::
  "(task \<Rightarrow> settled option) \<Rightarrow> task list \<Rightarrow> settled list option" where
  "gather_return_exceptions settle ts = those (map settle ts)"

datatype completion = Returns | NeverReturns

text \<open>\<open>__shutdown\<close>. The result of \<open>gather\<close> is not bound to anything.\<close>

definition shutdown ::
  "(task \<Rightarrow> settled option) \<Rightarrow> bot_globals \<Rightarrow> event_loop \<Rightarrow> Signals
     \<Rightarrow> loop_effect list \<times> completion" where
  "shutdown settle g loop sig =
     (let called = [LoopLog DEBUG (u ''Signal {sig.name} was caught!''),
                    LoopLog INFO (u ''Shutdown called!''),
                    LoopLog INFO (u ''Disposing database engine...'')];
          disposed = (case DB_ENGINE g of None \<Rightarrow> [] | Some engine \<Rightarrow> [Dispose engine]);
          tasks = filter (\<lambda>task. task \<noteq> current_task loop) (all_tasks loop);
          cancelling = [LoopLog DEBUG (u ''Getting all tasks...''),
                        LoopLog DEBUG ([9] @ u ''Tasks: {tasks}''),
                        LoopLog INFO (u ''Cancelling {len(tasks)} tasks...'')];
          cancelled = map Cancel tasks;
          awaiting = [LoopLog DEBUG (u ''Awaiting shutdown...''), Gather tasks];
          before = called @ disposed @ cancelling @ cancelled @ awaiting
      in case gather_return_exceptions settle tasks of
           None \<Rightarrow> (before, NeverReturns)
         | Some results \<Rightarrow>
             (before @ [LoopLog INFO (u ''Stopping event loop...''), LoopStop], Returns))"

text \<open>Observations on a trace of the shutdown sequence.\<close>

fun disposals :: "loop_effect list \<Rightarrow> AsyncEngine list" where
  "disposals [] = []"
| "disposals (Dispose e # tr) = e # disposals tr"
| "disposals (_ # tr) = disposals tr"

fun cancellations :: "loop_effect list \<Rightarrow> task list" where
  "cancellations [] = []"
| "cancellations (Cancel t # tr) = t # cancellations tr"
| "cancellations (_ # tr) = cancellations tr"

section \<open>Observations and sample data for the claims\<close>

text \<open>An effect that touches the command tree: a sync or the copy that prepares one.\<close>

fun is_tree_sync :: "effect \<Rightarrow> bool" where
  "is_tree_sync (TreeSync _) = True"
| "is_tree_sync (TreeCopyGlobalTo _) = True"
| "is_tree_sync _ = False"

text \<open>A store holding two criteria.\<close>

definition two_criteria :: database where
  "two_criteria =
     \<lparr>rows = [\<lparr>criterion_id = Some 1, submission_type = WantToBuy, keyword_list = [],
               all_required = True, min_transactions = 5\<rparr>,
              \<lparr>criterion_id = Some 2, submission_type = WantToSell, keyword_list = [],
               all_required = True, min_transactions = 5\<rparr>],
      next_id = 3\<rparr>"

text \<open>
  The trace of \<open>__shutdown\<close> up to and including the call of \<open>gather\<close>, written out
  once.
\<close>

definition before_gather :: "bot_globals \<Rightarrow> event_loop \<Rightarrow> loop_effect list" where
  "before_gather g loop =
     [LoopLog DEBUG (u ''Signal {sig.name} was caught!''),
      LoopLog INFO (u ''Shutdown called!''),
      LoopLog INFO (u ''Disposing database engine...'')] @
     (case DB_ENGINE g of None \<Rightarrow> [] | Some engine \<Rightarrow> [Dispose engine]) @
     [LoopLog DEBUG (u ''Getting all tasks...''),
      LoopLog DEBUG ([9] @ u ''Tasks: {tasks}''),
      LoopLog INFO (u ''Cancelling {len(tasks)} tasks...'')] @
     map Cancel (filter (\<lambda>task. task \<noteq> current_task loop) (all_tasks loop)) @
     [LoopLog DEBUG (u ''Awaiting shutdown...''),
      Gather (filter (\<lambda>task. task \<noteq> current_task loop) (all_tasks loop))]"

section \<open>Properties of the splitting scan\<close>

lemma split_from_nonspace:
  "\<forall>c\<in>set t. \<not> isspace c \<Longrightarrow> split_from cur (t @ v) = split_from (cur @ t) v"
  by (induction t arbitrary: cur) auto

lemma split_from_space:
  "\<forall>c\<in>set ws. isspace c \<Longrightarrow> split_from [] (ws @ v) = split_from [] v"
  by (induction ws) auto

lemma split_from_tokens:
  "\<forall>c\<in>set cur. \<not> isspace c \<Longrightarrow>
   \<forall>t\<in>set (split_from cur v). t \<noteq> [] \<and> (\<forall>c\<in>set t. \<not> isspace c)"
proof (induction v arbitrary: cur)
  case Nil
  then show ?case by simp
next
  case (Cons a v)
  have empty: "\<forall>t\<in>set (split_from [] v). t \<noteq> [] \<and> (\<forall>c\<in>set t. \<not> isspace c)"
    using Cons.IH [of "[]"] by simp
  show ?case
  proof (cases "isspace a")
    case True
    then show ?thesis using empty Cons.prems by auto
  next
    case False
    then have "\<forall>c\<in>set (cur @ [a]). \<not> isspace c" using Cons.prems by simp
    from Cons.IH [OF this] show ?thesis using False by simp
  qed
qed

lemma split_from_concat:
  "concat (split_from cur v) = cur @ filter (\<lambda>c. \<not> isspace c) v"
  by (induction v arbitrary: cur) auto

lemma split_from_last_token:
  assumes "t \<noteq> []" and "\<forall>c\<in>set s. isspace c"
  shows "split_from t s = [t]"
proof (cases s)
  case Nil
  then show ?thesis using assms(1) by simp
next
  case (Cons c s')
  then have "split_from [] (s' @ []) = split_from [] []"
    using assms(2) split_from_space [of s' "[]"] by simp
  then show ?thesis using Cons assms by simp
qed

lemma split_spaced:
  assumes "\<forall>(t, s)\<in>set tss. t \<noteq> [] \<and> (\<forall>c\<in>set t. \<not> isspace c) \<and> (\<forall>c\<in>set s. isspace c)"
    and "\<forall>(t, s)\<in>set (butlast tss). s \<noteq> []"
  shows "split_from [] (spaced tss) = map fst tss"
  using assms
proof (induction tss)
  case Nil
  then show ?case by simp
next
  case (Cons p tss)
  obtain t s where p: "p = (t, s)" by (cases p)
  have t: "t \<noteq> []" "\<forall>c\<in>set t. \<not> isspace c" and s: "\<forall>c\<in>set s. isspace c"
    using Cons.prems(1) p by auto
  have step: "split_from [] (t @ s @ spaced tss) = split_from t (s @ spaced tss)"
    using split_from_nonspace [OF t(2), of "[]"] by simp
  show ?case
  proof (cases tss)
    case Nil
    have "split_from t s = [t]" using split_from_last_token [OF t(1) s] .
    then show ?thesis using step p Nil by simp
  next
    case (Cons q tss')
    then have "s \<noteq> []" using Cons.prems(2) p by auto
    then obtain c s' where s': "s = c # s'" by (cases s) auto
    have rest: "split_from [] (spaced tss) = map fst tss"
      using Cons.IH Cons.prems Cons by auto
    have "split_from t (s @ spaced tss) = t # split_from [] (s' @ spaced tss)"
      using s s' t(1) by simp
    also have "\<dots> = t # split_from [] (spaced tss)"
      using split_from_space [of s'] s s' by simp
    finally show ?thesis using step rest p by simp
  qed
qed

lemma transform_spaced:
  assumes "\<forall>c\<in>set lead. isspace c"
    and "\<forall>(t, s)\<in>set tss. t \<noteq> [] \<and> (\<forall>c\<in>set t. \<not> isspace c) \<and> (\<forall>c\<in>set s. isspace c)"
    and "\<forall>(t, s)\<in>set (butlast tss). s \<noteq> []"
  shows "transform (lead @ spaced tss) = map (\<lambda>(t, s). \<lparr>content = t\<rparr>) tss"
proof -
  have "str_split (lead @ spaced tss) = map fst tss"
    unfolding str_split_def
    using split_from_space [OF assms(1)] split_spaced [OF assms(2) assms(3)] by simp
  then show ?thesis
    by (simp add: transform_def case_prod_unfold)
qed

lemma transform_contents:
  "\<forall>k\<in>set (transform v). content k \<noteq> [] \<and> (\<forall>c\<in>set (content k). \<not> isspace c)"
  using split_from_tokens [of "[]" v] by (auto simp: transform_def str_split_def)

lemma transform_concat:
  "concat (map content (transform v)) = filter (\<lambda>c. \<not> isspace c) v"
  using split_from_concat [of "[]" v] by (simp add: transform_def str_split_def comp_def)

lemma transform_foo_BAR:
  "transform (u ''foo BAR'') = [\<lparr>content = u ''foo''\<rparr>, \<lparr>content = u ''BAR''\<rparr>]"
  by (simp add: transform_def str_split_def u_def isspace_def)

section \<open>Claims about the keyword transformer\<close>

text \<open>
  C1. For every input string \<open>v\<close> of the \<open>keywords\<close> parameter, every keyword the
  transformer produces has a non-empty content without whitespace, and the contents,
  put together in order, are the non-whitespace characters of \<open>v\<close>, unchanged (so the
  case of each character is kept). The transformer produces one keyword per
  whitespace-separated token, in order and with repetitions: whenever \<open>v\<close> is made of
  leading whitespace and of tokens \<open>t\<close> (non-empty, free of whitespace), each followed by
  a whitespace separator \<open>s\<close> that is non-empty except possibly after the last token,
  the result is the list of keywords holding these tokens. The input \<open>foo BAR\<close> gives
  exactly the two keywords \<open>foo\<close> and \<open>BAR\<close>.
\<close>

theorem transform_one_keyword_per_token:
  "(\<forall>k\<in>set (transform v). content k \<noteq> [] \<and> (\<forall>c\<in>set (content k). \<not> isspace c)) \<and>
   concat (map content (transform v)) = filter (\<lambda>c. \<not> isspace c) v \<and>
   ((\<forall>c\<in>set lead. isspace c) \<and>
    (\<forall>(t, s)\<in>set tss. t \<noteq> [] \<and> (\<forall>c\<in>set t. \<not> isspace c) \<and> (\<forall>c\<in>set s. isspace c)) \<and>
    (\<forall>(t, s)\<in>set (butlast tss). s \<noteq> []) \<longrightarrow>
    transform (lead @ spaced tss) = map (\<lambda>(t, s). \<lparr>content = t\<rparr>) tss) \<and>
   transform (u ''foo BAR'') = [\<lparr>content = u ''foo''\<rparr>, \<lparr>content = u ''BAR''\<rparr>]"
  using transform_contents [of v] transform_concat [of v] transform_spaced [of lead tss]
    transform_foo_BAR
  by blast

theorem transform_one_keyword_per_token_witness:
  "transform (u '' foo  BAR foo'') =
     [\<lparr>content = u ''foo''\<rparr>, \<lparr>content = u ''BAR''\<rparr>, \<lparr>content = u ''foo''\<rparr>] \<and>
   concat (map content (transform (u '' foo  BAR foo''))) = u ''fooBARfoo''"
  using transform_one_keyword_per_token
    [of "u '' foo  BAR foo''" "u '' ''"
        "[(u ''foo'', u ''  ''), (u ''BAR'', u '' ''), (u ''foo'', [])]"]
  by (simp add: u_def isspace_def)

section \<open>Claims about the slash commands\<close>

lemma commit_one_insert:
  "close_session (session_commit (session_add (open_session db) c)) =
     \<lparr>rows = rows db @ [flushed db c], next_id = next_id db + 1\<rparr>"
  by (simp add: close_session_def session_commit_def session_add_def open_session_def)

lemma commit_one_delete:
  "close_session (session_commit (session_delete (open_session db) c)) =
     db\<lparr>rows := filter (\<lambda>r. criterion_id r \<noteq> criterion_id c) (rows db)\<rparr>"
  by (simp add: close_session_def session_commit_def session_delete_def open_session_def)

lemma Searches_add_result:
  "Searches_add repr_criterion db st kws ar mt =
     (\<lparr>rows = rows db @
              [\<lparr>criterion_id = Some (next_id db), submission_type = st, keyword_list = kws,
                all_required = ar, min_transactions = mt\<rparr>],
       next_id = next_id db + 1\<rparr>,
      [Log DEBUG (u ''Received slash command: /searches add {submission_type} {keywords} {all_required} {min_transactions}''),
       SendMessage (u ''Creating...''),
       SessionAdd \<lparr>criterion_id = None, submission_type = st, keyword_list = kws,
                   all_required = ar, min_transactions = mt\<rparr>,
       SessionCommit,
       EditOriginalResponse
         (u ''Created!'' @ [10] @
          repr_criterion \<lparr>criterion_id = Some (next_id db), submission_type = st,
                           keyword_list = kws, all_required = ar, min_transactions = mt\<rparr>)])"
  unfolding Searches_add_def Let_def commit_one_insert
  by (simp add: flushed_def session_add_def open_session_def)

lemma select_by_id_None:
  "select_by_id (open_session db) search_id = None \<longleftrightarrow>
     (\<forall>r\<in>set (rows db). criterion_id r \<noteq> Some search_id)"
  by (auto simp: select_by_id_def open_session_def find_None_iff)

lemma select_by_id_Some:
  "select_by_id (open_session db) search_id = Some c \<Longrightarrow>
     c \<in> set (rows db) \<and> criterion_id c = Some search_id"
  by (auto simp: select_by_id_def open_session_def find_Some_iff)

lemma str_int_404: "str_int 404 = u ''404''"
  by code_simp

lemma transform_whitespace: "\<forall>c\<in>set v. isspace c \<Longrightarrow> transform v = []"
  using split_from_space [of v "[]"] by (simp add: transform_def str_split_def)




text \<open>
  C3. When no stored criterion has the key \<open>search_id\<close>, \<open>/searches delete\<close> sends the
  placeholder reply, looks the key up, edits the reply to
  \<open>Search criteria not found for id <search_id>!\<close> and does nothing else: no delete, no
  commit, and the store is returned as it was. When a stored criterion has that key, the
  handler registers the deletion of the criterion it found, commits, and then edits the
  reply to \<open>Successfully deleted!\<close>; the store afterwards is the store before without
  the criteria of that key. Every \<open>search_id\<close> of an invocation reaches the handler as
  it is.
\<close>

theorem Searches_delete_not_found_or_deleted:
  "((\<forall>r\<in>set (rows db). criterion_id r \<noteq> Some search_id) \<longrightarrow>
      Searches_delete db search_id =
        (db,
         [Log DEBUG (u ''Received slash command: /searches delete {search_id}''),
          SendMessage (u ''Please wait...''),
          SessionScalar search_id,
          EditOriginalResponse
            (u ''Search criteria not found for id '' @ str_int search_id @ u ''!'')])) \<and>
   ((\<exists>r\<in>set (rows db). criterion_id r = Some search_id) \<longrightarrow>
      (\<exists>criterion\<in>set (rows db). criterion_id criterion = Some search_id \<and>
         Searches_delete db search_id =
           (db\<lparr>rows := filter (\<lambda>r. criterion_id r \<noteq> Some search_id) (rows db)\<rparr>,
            [Log DEBUG (u ''Received slash command: /searches delete {search_id}''),
             SendMessage (u ''Please wait...''),
             SessionScalar search_id,
             SessionDelete criterion,
             SessionCommit,
             EditOriginalResponse (u ''Successfully deleted!'')]))) \<and>
   invoke_delete db search_id = Searches_delete db search_id"
proof (intro conjI impI)
  assume "\<forall>r\<in>set (rows db). criterion_id r \<noteq> Some search_id"
  then have "select_by_id (open_session db) search_id = None"
    by (simp add: select_by_id_None)
  then show "Searches_delete db search_id =
        (db,
         [Log DEBUG (u ''Received slash command: /searches delete {search_id}''),
          SendMessage (u ''Please wait...''),
          SessionScalar search_id,
          EditOriginalResponse
            (u ''Search criteria not found for id '' @ str_int search_id @ u ''!'')])"
    by (simp add: Searches_delete_def Let_def close_session_def open_session_def)
next
  assume "\<exists>r\<in>set (rows db). criterion_id r = Some search_id"
  then have "select_by_id (open_session db) search_id \<noteq> None"
    by (simp add: select_by_id_None)
  then obtain c where c: "select_by_id (open_session db) search_id = Some c" by auto
  have mem: "c \<in> set (rows db)" and cid: "criterion_id c = Some search_id"
    using select_by_id_Some [OF c] by simp_all
  have "Searches_delete db search_id =
           (db\<lparr>rows := filter (\<lambda>r. criterion_id r \<noteq> Some search_id) (rows db)\<rparr>,
            [Log DEBUG (u ''Received slash command: /searches delete {search_id}''),
             SendMessage (u ''Please wait...''),
             SessionScalar search_id,
             SessionDelete c,
             SessionCommit,
             EditOriginalResponse (u ''Successfully deleted!'')])"
    unfolding Searches_delete_def Let_def c option.case commit_one_delete cid by simp
  then show "\<exists>criterion\<in>set (rows db). criterion_id criterion = Some search_id \<and>
         Searches_delete db search_id =
           (db\<lparr>rows := filter (\<lambda>r. criterion_id r \<noteq> Some search_id) (rows db)\<rparr>,
            [Log DEBUG (u ''Received slash command: /searches delete {search_id}''),
             SendMessage (u ''Please wait...''),
             SessionScalar search_id,
             SessionDelete criterion,
             SessionCommit,
             EditOriginalResponse (u ''Successfully deleted!'')])"
    using mem cid by blast
next
  show "invoke_delete db search_id = Searches_delete db search_id"
    by (simp add: invoke_delete_def)
qed

theorem Searches_delete_not_found_or_deleted_witness:
  "Searches_delete \<lparr>rows = [], next_id = 1\<rparr> 404 =
     (\<lparr>rows = [], next_id = 1\<rparr>,
      [Log DEBUG (u ''Received slash command: /searches delete {search_id}''),
       SendMessage (u ''Please wait...''),
       SessionScalar 404,
       EditOriginalResponse (u ''Search criteria not found for id 404!'')]) \<and>
   fst (Searches_delete
          \<lparr>rows = [\<lparr>criterion_id = Some 3, submission_type = WantToBuy,
                     keyword_list = [\<lparr>content = u ''foo''\<rparr>], all_required = True,
                     min_transactions = 5\<rparr>],
            next_id = 4\<rparr> 3) = \<lparr>rows = [], next_id = 4\<rparr> \<and>
   invoke_delete \<lparr>rows = [], next_id = 1\<rparr> 404 =
     Searches_delete \<lparr>rows = [], next_id = 1\<rparr> 404"
  using Searches_delete_not_found_or_deleted [of "\<lparr>rows = [], next_id = 1\<rparr>" 404]
    Searches_delete_not_found_or_deleted
      [of "\<lparr>rows = [\<lparr>criterion_id = Some 3, submission_type = WantToBuy,
                     keyword_list = [\<lparr>content = u ''foo''\<rparr>], all_required = True,
                     min_transactions = 5\<rparr>],
            next_id = 4\<rparr>" 3]
  by (auto simp: str_int_404 u_def)

text \<open>
  C10. For every \<open>keywords\<close> string that is empty or made of whitespace only, the
  transformer returns the empty list, and \<open>/searches add\<close> (here with \<open>min_transactions\<close>
  omitted) stores and commits a criterion whose keyword list is empty: the command
  does not guarantee that a stored criterion has a keyword.
\<close>

theorem add_accepts_no_keywords:
  "(\<forall>c\<in>set value. isspace c) \<longrightarrow>
     transform value = [] \<and>
     (\<exists>trace.
        invoke_add repr_criterion db submission_type' value all_required' None =
          (\<lparr>rows = rows db @
                  [\<lparr>criterion_id = Some (next_id db), submission_type = submission_type',
                    keyword_list = [],
                    all_required = (case all_required' of None \<Rightarrow> True | Some b \<Rightarrow> b),
                    min_transactions = 5\<rparr>],
            next_id = next_id db + 1\<rparr>,
           trace) \<and>
        SessionCommit \<in> set trace)"
  by (simp add: transform_whitespace invoke_add_def Searches_add_result)

theorem add_accepts_no_keywords_witness:
  "transform [32, 9, 32] = [] \<and> transform [] = [] \<and>
   (\<exists>trace.
      invoke_add (\<lambda>c. []) \<lparr>rows = [], next_id = 1\<rparr> WantToBuy [32, 9, 32] None None =
        (\<lparr>rows = [\<lparr>criterion_id = Some 1, submission_type = WantToBuy, keyword_list = [],
                    all_required = True, min_transactions = 5\<rparr>], next_id = 2\<rparr>,
         trace))"
  using add_accepts_no_keywords
      [of "[32, 9, 32]" "\<lambda>c. []" "\<lparr>rows = [], next_id = 1\<rparr>" WantToBuy None]
    add_accepts_no_keywords [of "[]" "\<lambda>c. []" "\<lparr>rows = [], next_id = 1\<rparr>" WantToBuy None]
  by (auto simp: isspace_def)

lemma Searches_list_result:
  "Searches_list str_criterion db =
     (db,
      [Log DEBUG (u ''Received slash command: /searches list''),
       SendMessage (u ''Please wait...''),
       SessionScalars,
       EditOriginalResponse
         (u ''Search criteria:'' @ [10] @ join [9, 10] (map str_criterion (rows db)))])"
  by (simp add: Searches_list_def Let_def select_all_def open_session_def close_session_def)

text \<open>
  C8, as stated: the reply of \<open>/searches list\<close> is the heading \<open>Search criteria:\<close>
  followed by the renderings joined by newlines. On a store of two criteria, each
  rendered as \<open>c\<close>, the handler sends neither that text with a newline after the heading
  nor that text without one: the separator the source joins with is a tab followed by a
  newline.
\<close>

theorem Searches_list_newline_joined_counterexample:
  "EditOriginalResponse
     (u ''Search criteria:'' @ [10] @ join [10] (map (\<lambda>c. u ''c'') (rows two_criteria)))
     \<notin> set (snd (Searches_list (\<lambda>c. u ''c'') two_criteria)) \<and>
   EditOriginalResponse
     (u ''Search criteria:'' @ join [10] (map (\<lambda>c. u ''c'') (rows two_criteria)))
     \<notin> set (snd (Searches_list (\<lambda>c. u ''c'') two_criteria))"
  by (simp add: Searches_list_result two_criteria_def u_def)

text \<open>
  C8, amended. Every invocation of \<open>/searches list\<close> leaves the store as it is and has
  these effects, in order: the debug log line, the placeholder reply \<open>Please wait...\<close>,
  the read of all stored criteria, and the edit of the reply to \<open>Search criteria:\<close>, a
  newline, and the renderings of the stored criteria joined by the two-character
  separator tab, newline. When no criterion is stored, nothing follows the heading line.
\<close>

theorem Searches_list_tab_newline_joined:
  "Searches_list str_criterion db =
     (db,
      [Log DEBUG (u ''Received slash command: /searches list''),
       SendMessage (u ''Please wait...''),
       SessionScalars,
       EditOriginalResponse
         (u ''Search criteria:'' @ [10] @ join [9, 10] (map str_criterion (rows db)))]) \<and>
   (rows db = [] \<longrightarrow>
      EditOriginalResponse (u ''Search criteria:'' @ [10])
        \<in> set (snd (Searches_list str_criterion db)))"
  by (simp add: Searches_list_result)

theorem Searches_list_tab_newline_joined_witness:
  "snd (Searches_list (\<lambda>c. u ''c'') two_criteria) =
     [Log DEBUG (u ''Received slash command: /searches list''),
      SendMessage (u ''Please wait...''),
      SessionScalars,
      EditOriginalResponse (u ''Search criteria:'' @ [10] @ u ''c'' @ [9, 10] @ u ''c'')] \<and>
   EditOriginalResponse (u ''Search criteria:'' @ [10])
     \<in> set (snd (Searches_list (\<lambda>c. u ''c'') \<lparr>rows = [], next_id = 1\<rparr>))"
  using Searches_list_tab_newline_joined [of "\<lambda>c. u ''c''" two_criteria]
    Searches_list_tab_newline_joined [of "\<lambda>c. u ''c''" "\<lparr>rows = [], next_id = 1\<rparr>"]
  by (simp add: two_criteria_def)

section \<open>Claims about the text command \<open>%sync\<close>\<close>

text \<open>
  C6. The error handler of \<open>%sync\<close> answers a missing argument with
  \<open>A value for `<param>` is missing!\<close>, a newline, a tab and the usage string; it answers
  an invalid literal with \<open>`<param>` must be either `here` or `global`!\<close>, a newline, a
  tab and the usage string; for any other error it logs at error level and raises the
  error again. An owner's invocation without a target reaches the handler with the
  missing parameter \<open>target\<close>, and one whose target is neither \<open>global\<close> nor \<open>here\<close>
  reaches it with the invalid literal, in both cases before the body of the command has
  run; the handler itself does not touch the command tree in these two cases.
\<close>

theorem sync_error_replies_or_reraises:
  "sync_error ctx (MissingRequiredArgument param_name) =
     ([CtxSend (u ''A value for `'' @ param_name @ u ''` is missing!'' @ [10, 9] @
                u ''Usage: `%sync <here|global>`'')], None) \<and>
   sync_error ctx (BadLiteralArgument param_name) =
     ([CtxSend (u ''`'' @ param_name @ u ''` must be either `here` or `global`!'' @ [10, 9] @
                u ''Usage: `%sync <here|global>`'')], None) \<and>
   sync_error ctx (OtherCommandError cls) =
     ([Log ERROR (u ''Unhandled exception for 'sync' command!'')],
      Some (OtherCommandError cls)) \<and>
   (author_is_owner ctx \<longrightarrow>
      invoke_sync tree_sync ctx [] = sync_error ctx (MissingRequiredArgument (u ''target''))) \<and>
   (author_is_owner ctx \<and> a \<noteq> u ''global'' \<and> a \<noteq> u ''here'' \<longrightarrow>
      invoke_sync tree_sync ctx (a # rest) = sync_error ctx (BadLiteralArgument (u ''target''))) \<and>
   filter is_tree_sync (fst (sync_error ctx (MissingRequiredArgument param_name))) = [] \<and>
   filter is_tree_sync (fst (sync_error ctx (BadLiteralArgument param_name))) = []"
  by (simp add: sync_error_def usage_string_def invoke_sync_def convert_target_def)

theorem sync_error_replies_or_reraises_witness:
  "invoke_sync (\<lambda>g. []) \<lparr>ctx_guild = None, author_is_owner = True\<rparr> [] =
     ([CtxSend (u ''A value for `target` is missing!'' @ [10, 9] @
                u ''Usage: `%sync <here|global>`'')], None) \<and>
   invoke_sync (\<lambda>g. []) \<lparr>ctx_guild = None, author_is_owner = True\<rparr> [u ''everywhere''] =
     ([CtxSend (u ''`target` must be either `here` or `global`!'' @ [10, 9] @
                u ''Usage: `%sync <here|global>`'')], None)"
  using sync_error_replies_or_reraises
      [where ctx = "\<lparr>ctx_guild = None, author_is_owner = True\<rparr>"
         and param_name = "u ''target''" and tree_sync = "\<lambda>g. []"
         and a = "u ''everywhere''" and rest = "[]"]
  by (simp add: u_def)

text \<open>
  C7. When the context has no server, \<open>sync\<close> with the target \<open>here\<close> logs the command,
  sends exactly \<open>Not in a guild context!\<close> and returns: its trace has no sync of the
  command tree and no copy to a server. The same holds for the owner's invocation
  \<open>%sync here\<close> as a whole.
\<close>

theorem sync_here_outside_guild:
  "ctx_guild ctx = None \<longrightarrow>
     sync tree_sync ctx Here =
       [Log DEBUG (u ''Received command: %sync {target}''),
        CtxSend (u ''Not in a guild context!'')] \<and>
     filter is_tree_sync (sync tree_sync ctx Here) = [] \<and>
     (author_is_owner ctx \<longrightarrow>
        invoke_sync tree_sync ctx (u ''here'' # rest) =
          ([Log DEBUG (u ''Received command: %sync {target}''),
            CtxSend (u ''Not in a guild context!'')], None))"
  by (simp add: sync_def invoke_sync_def convert_target_def u_def)

theorem sync_here_outside_guild_witness:
  "invoke_sync (\<lambda>g. [u ''ping'']) \<lparr>ctx_guild = None, author_is_owner = True\<rparr> [u ''here''] =
     ([Log DEBUG (u ''Received command: %sync {target}''),
       CtxSend (u ''Not in a guild context!'')], None)"
  using sync_here_outside_guild
      [where ctx = "\<lparr>ctx_guild = None, author_is_owner = True\<rparr>"
         and tree_sync = "\<lambda>g. [u ''ping'']" and rest = "[]"]
  by simp

section \<open>Claims about the module \<open>common\<close>\<close>

lemma checkLevel_INFO: "checkLevel (Some (u ''INFO'')) = Inr 20"
  by (simp add: checkLevel_def nameToLevel_def u_def)

lemma get_engine_with_level:
  assumes "ENGINE p = None" and "checkLevel (LOG_LEVEL p) = Inr lv"
  shows "snd (get_engine p) =
           Inr \<lparr>engine_url = u ''sqlite:///test.db'', engine_no = engines_created p\<rparr>"
    and "records (fst (get_engine p)) =
           records p @ [(u ''wemb.common'', INFO, u ''created engine'')]"
    and "engines_created (fst (get_engine p)) = engines_created p + 1"
    and "get_engine (fst (get_engine p)) =
           (fst (get_engine p),
            Inr \<lparr>engine_url = u ''sqlite:///test.db'', engine_no = engines_created p\<rparr>)"
  using assms
  by (simp_all add: get_engine_def get_logger_def Let_def logger_info_def u_def)

text \<open>
  C5, at the input where the code departs from it: a process in which \<open>set_log_level\<close>
  has not been called, so that \<open>LOG_LEVEL\<close> still has its initial value \<open>None\<close>. The first
  call of \<open>get_engine\<close> constructs the engine and stores it in \<open>ENGINE\<close>, then fails
  with the \<open>TypeError\<close> of \<open>logger.setLevel(None)\<close> inside \<open>get_logger\<close>, and nothing is
  logged; the second call returns the stored engine and logs nothing either, so the
  message \<open>created engine\<close> is never logged. (When a level has been recorded that names
  a logging level, the calls behave as the claim says: \<open>get_engine_with_level\<close>.)
\<close>

theorem get_engine_unset_level_fails:
  "snd (get_engine fresh_process) = Inl LevelTypeError \<and>
   ENGINE (fst (get_engine fresh_process)) =
     Some \<lparr>engine_url = u ''sqlite:///test.db'', engine_no = 0\<rparr> \<and>
   records (fst (get_engine fresh_process)) = [] \<and>
   snd (get_engine (fst (get_engine fresh_process))) =
     Inr \<lparr>engine_url = u ''sqlite:///test.db'', engine_no = 0\<rparr> \<and>
   records (fst (get_engine (fst (get_engine fresh_process)))) = []"
  by (simp add: get_engine_def get_logger_def checkLevel_def fresh_process_def Let_def)

text \<open>
  C9, as stated: \<open>get_logger\<close> fails with an invalid-input error for the empty string.
  With the level \<open>INFO\<close> recorded, \<open>get_logger("")\<close> returns the root logger at that
  level: the guard of the source only tests for \<open>None\<close>. And a non-empty name does not
  always get a logger: in a fresh process, where no level has been recorded, the call
  fails in \<open>setLevel\<close>.
\<close>

theorem get_logger_empty_name_counterexample:
  "snd (get_logger (Some []) (set_log_level (u ''INFO'') fresh_process)) =
     Inr \<lparr>logger_name = u ''root'', logger_level = 20\<rparr> \<and>
   snd (get_logger (Some (u ''wemb.bot'')) fresh_process) = Inl LevelTypeError"
  by (simp add: get_logger_def set_log_level_def Let_def checkLevel_INFO)
     (simp add: checkLevel_def fresh_process_def)

text \<open>
  C9, amended. \<open>get_logger\<close> fails with the \<open>ValueError\<close>
  \<open>package_name must be specified!\<close> when \<open>package_name\<close> is \<open>None\<close>, and raises a
  \<open>ValueError\<close> of its own for no other argument. For every string \<open>n\<close>, the empty one
  included, and every level that names a logging level, the call that follows
  \<open>set_log_level(level)\<close> returns the logger of the name \<open>n\<close> (the root logger for the
  empty name) with that level.
\<close>

theorem get_logger_none_or_recorded_level:
  "get_logger None p = (p, Inl (ValueError (u ''package_name must be specified!''))) \<and>
   ((\<exists>msg. snd (get_logger package_name p) = Inl (ValueError msg)) \<longleftrightarrow> package_name = None) \<and>
   (checkLevel (Some level) = Inr lv \<longrightarrow>
      snd (get_logger (Some n) (set_log_level level p)) =
        Inr \<lparr>logger_name = (if n = [] then u ''root'' else n), logger_level = lv\<rparr>)"
  by (cases package_name)
     (auto simp: get_logger_def set_log_level_def Let_def checkLevel_def
           split: option.splits sum.splits)

theorem get_logger_none_or_recorded_level_witness:
  "snd (get_logger (Some (u ''wemb.bot'')) (set_log_level (u ''INFO'') fresh_process)) =
     Inr \<lparr>logger_name = u ''wemb.bot'', logger_level = 20\<rparr> \<and>
   snd (get_logger None fresh_process) = Inl (ValueError (u ''package_name must be specified!''))"
  using get_logger_none_or_recorded_level
      [where level = "u ''INFO''" and lv = 20 and n = "u ''wemb.bot''" and p = fresh_process
         and package_name = None]
  by (simp add: checkLevel_INFO u_def [of "''wemb.bot''"])

section \<open>Claims about the shutdown sequence\<close>

lemma disposals_append: "disposals (a @ b) = disposals a @ disposals b"
  by (induction a rule: disposals.induct) simp_all

lemma cancellations_append: "cancellations (a @ b) = cancellations a @ cancellations b"
  by (induction a rule: cancellations.induct) simp_all

lemma disposals_map_Cancel: "disposals (map Cancel ts) = []"
  by (induction ts) simp_all

lemma cancellations_map_Cancel: "cancellations (map Cancel ts) = ts"
  by (induction ts) simp_all

lemma those_None_iff: "those (map f ts) = None \<longleftrightarrow> (\<exists>t\<in>set ts. f t = None)"
  by (induction ts) (auto split: option.splits)

lemma gather_returns_iff:
  "gather_return_exceptions settle ts \<noteq> None \<longleftrightarrow> (\<forall>t\<in>set ts. settle t \<noteq> None)"
  using those_None_iff [of settle ts] by (auto simp: gather_return_exceptions_def)

lemma shutdown_cases:
  "shutdown settle g loop sig =
     (if \<forall>t\<in>set (filter (\<lambda>task. task \<noteq> current_task loop) (all_tasks loop)). settle t \<noteq> None
      then (before_gather g loop @ [LoopLog INFO (u ''Stopping event loop...''), LoopStop], Returns)
      else (before_gather g loop, NeverReturns))"
proof -
  let ?ts = "filter (\<lambda>task. task \<noteq> current_task loop) (all_tasks loop)"
  show ?thesis
  proof (cases "gather_return_exceptions settle ?ts")
    case None
    then have "\<not> (\<forall>t\<in>set ?ts. settle t \<noteq> None)"
      using gather_returns_iff [of settle ?ts] by simp
    then show ?thesis
      using None unfolding shutdown_def before_gather_def Let_def by simp
  next
    case (Some rs)
    then have "\<forall>t\<in>set ?ts. settle t \<noteq> None"
      using gather_returns_iff [of settle ?ts] by simp
    then show ?thesis
      using Some unfolding shutdown_def before_gather_def Let_def by simp
  qed
qed

lemma before_gather_observed:
  "disposals (before_gather g loop) = (case DB_ENGINE g of None \<Rightarrow> [] | Some e \<Rightarrow> [e])"
  "cancellations (before_gather g loop) =
     filter (\<lambda>task. task \<noteq> current_task loop) (all_tasks loop)"
  "LoopStop \<notin> set (before_gather g loop)"
  "Gather (filter (\<lambda>task. task \<noteq> current_task loop) (all_tasks loop))
     \<in> set (before_gather g loop)"
  by (auto simp: before_gather_def disposals_append cancellations_append
        disposals_map_Cancel cancellations_map_Cancel split: option.splits)

lemma run_bot_setup_engine:
  "run_bot_setup signals_supported args g0 = (logged, Inr g) \<Longrightarrow>
     DB_ENGINE g = Some \<lparr>async_url = db_connection_string args\<rparr>"
  by (auto simp: run_bot_setup_def Let_def split: if_splits)

text \<open>
  C4. In every state of the module globals that \<open>run_bot\<close> leaves when it reaches the
  event loop, and for every set of unfinished tasks, a run of the shutdown sequence
  (followed here as long as the run is not itself cancelled while it waits) disposes the
  engine that \<open>run_bot\<close> created exactly once; cancels exactly the tasks other than
  the one running the sequence; returns if and only if every cancelled task ends,
  whatever the task ends with (a raised exception is collected by \<open>gather\<close> and dropped,
  it never leaves the sequence); and stops the loop only as its last effect, after the
  disposal, all the cancellations and the gathering. While a cancelled task has not
  ended, the loop is not stopped.
\<close>

theorem shutdown_disposes_cancels_then_stops:
  "run_bot_setup signals_supported args g0 = (logged, Inr g) \<longrightarrow>
     (let tasks = filter (\<lambda>task. task \<noteq> current_task loop) (all_tasks loop);
          engine = \<lparr>async_url = db_connection_string args\<rparr>;
          trace = fst (shutdown settle g loop sig);
          completion = snd (shutdown settle g loop sig)
      in disposals trace = [engine] \<and>
         cancellations trace = tasks \<and>
         (completion = Returns \<longleftrightarrow> (\<forall>t\<in>set tasks. settle t \<noteq> None)) \<and>
         (completion = Returns \<longrightarrow>
            (\<exists>before. trace = before @ [LoopLog INFO (u ''Stopping event loop...''), LoopStop] \<and>
               LoopStop \<notin> set before \<and> disposals before = [engine] \<and>
               cancellations before = tasks \<and> Gather tasks \<in> set before)) \<and>
         (completion = NeverReturns \<longrightarrow> LoopStop \<notin> set trace))"
proof
  assume started: "run_bot_setup signals_supported args g0 = (logged, Inr g)"
  have engine: "DB_ENGINE g = Some \<lparr>async_url = db_connection_string args\<rparr>"
    using run_bot_setup_engine [OF started] .
  let ?ts = "filter (\<lambda>task. task \<noteq> current_task loop) (all_tasks loop)"
  show "let tasks = ?ts;
          engine = \<lparr>async_url = db_connection_string args\<rparr>;
          trace = fst (shutdown settle g loop sig);
          completion = snd (shutdown settle g loop sig)
      in disposals trace = [engine] \<and>
         cancellations trace = tasks \<and>
         (completion = Returns \<longleftrightarrow> (\<forall>t\<in>set tasks. settle t \<noteq> None)) \<and>
         (completion = Returns \<longrightarrow>
            (\<exists>before. trace = before @ [LoopLog INFO (u ''Stopping event loop...''), LoopStop] \<and>
               LoopStop \<notin> set before \<and> disposals before = [engine] \<and>
               cancellations before = tasks \<and> Gather tasks \<in> set before)) \<and>
         (completion = NeverReturns \<longrightarrow> LoopStop \<notin> set trace)"
  proof (cases "\<forall>t\<in>set ?ts. settle t \<noteq> None")
    case True
    then have sd: "shutdown settle g loop sig =
        (before_gather g loop @ [LoopLog INFO (u ''Stopping event loop...''), LoopStop], Returns)"
      by (simp add: shutdown_cases)
    show ?thesis
      unfolding Let_def sd
      using True before_gather_observed [where g = g and loop = loop] engine
      by (simp add: disposals_append cancellations_append)
  next
    case False
    then have sd: "shutdown settle g loop sig = (before_gather g loop, NeverReturns)"
      by (simp add: shutdown_cases)
    show ?thesis
      unfolding Let_def sd
      using False before_gather_observed [where g = g and loop = loop] engine
      by simp
  qed
qed

theorem shutdown_disposes_cancels_then_stops_witness:
  "shutdown (\<lambda>t. if t = 1 then Some CancelledError else Some (Raised (u ''boom'')))
     \<lparr>DB_ENGINE = Some \<lparr>async_url = u ''sqlite+aiosqlite:///wemb.db''\<rparr>,
       DB_SESSION = Some \<lparr>async_url = u ''sqlite+aiosqlite:///wemb.db''\<rparr>,
       handlers = Some LoopSignalHandlers\<rparr>
     \<lparr>all_tasks = [1, 2, 3], current_task = 3\<rparr> SIGTERM =
   ([LoopLog DEBUG (u ''Signal {sig.name} was caught!''),
     LoopLog INFO (u ''Shutdown called!''),
     LoopLog INFO (u ''Disposing database engine...''),
     Dispose \<lparr>async_url = u ''sqlite+aiosqlite:///wemb.db''\<rparr>,
     LoopLog DEBUG (u ''Getting all tasks...''),
     LoopLog DEBUG ([9] @ u ''Tasks: {tasks}''),
     LoopLog INFO (u ''Cancelling {len(tasks)} tasks...''),
     Cancel 1, Cancel 2,
     LoopLog DEBUG (u ''Awaiting shutdown...''),
     Gather [1, 2],
     LoopLog INFO (u ''Stopping event loop...''),
     LoopStop], Returns) \<and>
   cancellations
     (fst (shutdown (\<lambda>t. if t = 1 then Some CancelledError else Some (Raised (u ''boom'')))
        \<lparr>DB_ENGINE = Some \<lparr>async_url = u ''sqlite+aiosqlite:///wemb.db''\<rparr>,
          DB_SESSION = Some \<lparr>async_url = u ''sqlite+aiosqlite:///wemb.db''\<rparr>,
          handlers = Some LoopSignalHandlers\<rparr>
        \<lparr>all_tasks = [1, 2, 3], current_task = 3\<rparr> SIGTERM)) = [1, 2]"
  using shutdown_disposes_cancels_then_stops
      [where signals_supported = True
         and args = "\<lparr>allow_dirty_shutdown = False,
                       db_connection_string = u ''sqlite+aiosqlite:///wemb.db'',
                       discord_api_token = u ''token''\<rparr>"
         and g0 = module_globals and logged = "[]"
         and g = "\<lparr>DB_ENGINE = Some \<lparr>async_url = u ''sqlite+aiosqlite:///wemb.db''\<rparr>,
                    DB_SESSION = Some \<lparr>async_url = u ''sqlite+aiosqlite:///wemb.db''\<rparr>,
                    handlers = Some LoopSignalHandlers\<rparr>"
         and loop = "\<lparr>all_tasks = [1, 2, 3], current_task = 3\<rparr>"
         and settle = "\<lambda>t. if t = 1 then Some CancelledError else Some (Raised (u ''boom''))"
         and sig = SIGTERM]
  by (simp add: run_bot_setup_def module_globals_def Let_def shutdown_def
        gather_return_exceptions_def)

end
